theory Spec2Isabelle
  imports Main "HOL-Library.Char_ord" "HOL-Library.List_Lexorder"
begin

section \<open>Byte strings\<close>

text \<open>
  Go's \<^verbatim>\<open>[]byte\<close> and \<^verbatim>\<open>string\<close> are sequences of 8-bit values; both are
  modelled as \<^typ>\<open>string\<close> (a list of 8-bit characters). The order on byte strings is
  the lexicographic order on the byte values, which is what \<^verbatim>\<open>bytes.Compare\<close>
  computes and what the storage engine sorts its keys by.
\<close>

type_synonym bytes = string

section \<open>The embedded key-value engine\<close>

text \<open>
  The backend is written against \<^verbatim>\<open>github.com/boltdb/bolt\<close>. Only the calls the
  backend makes are modelled, from the engine's documented behaviour:
  \<^item> a bucket holds key/value pairs, kept in ascending byte order of the key
    (the leaf sequence of the B+tree), each key at most once;
  \<^item> \<^verbatim>\<open>Tx.Bucket\<close> returns nil for a bucket that does not exist;
  \<^item> \<^verbatim>\<open>Tx.CreateBucketIfNotExists\<close> fails on a blank name;
  \<^item> \<^verbatim>\<open>Bucket.Put\<close> fails on a blank key, on a key longer than
    \<^verbatim>\<open>MaxKeySize\<close> and on a value longer than \<^verbatim>\<open>MaxValueSize\<close>;
  \<^item> \<^verbatim>\<open>Bucket.Delete\<close> of a key that is not there does nothing and returns nil;
  \<^item> \<^verbatim>\<open>DB.Update\<close> commits when the function returns nil and rolls every
    change back when it returns an error; \<^verbatim>\<open>DB.View\<close> changes nothing.
  The handle is taken to be open and the disk to work: failures of the operating
  system are outside the model. The backend stores no nested buckets and no plain
  keys at the root, so the root is a map from bucket names to buckets.
\<close>

type_synonym bucket = "(bytes \<times> bytes) list"

type_synonym bolt_tx = "bytes \<rightharpoonup> bucket"

datatype bolt_error =
    ErrBucketNameRequired
  | ErrKeyRequired
  | ErrKeyTooLarge
  | ErrValueTooLarge

definition MaxKeySize :: nat where
  "MaxKeySize = 32768"

definition MaxValueSize :: nat where
  "MaxValueSize = 2 ^ 31 - 2"

definition tx_Bucket :: "bolt_tx \<Rightarrow> bytes \<Rightarrow> bucket option" where
  "tx_Bucket tx name = tx name"

text \<open>
  \<^verbatim>\<open>CreateBucketIfNotExists\<close> returns the bucket (here: its contents) together
  with the transaction in which the bucket exists.
\<close>

definition tx_CreateBucketIfNotExists :: "bolt_tx \<Rightarrow> bytes \<Rightarrow> bolt_error + (bucket \<times> bolt_tx)" where
  "tx_CreateBucketIfNotExists tx name =
     (if name = [] then Inl ErrBucketNameRequired
      else case tx name of
             Some b \<Rightarrow> Inr (b, tx)
           | None \<Rightarrow> Inr ([], tx(name \<mapsto> [])))"

fun node_put :: "bytes \<Rightarrow> bytes \<Rightarrow> bucket \<Rightarrow> bucket" where
  "node_put k v [] = [(k, v)]"
| "node_put k v ((k', v') # es) =
     (if k = k' then (k, v) # es
      else if k < k' then (k, v) # (k', v') # es
      else (k', v') # node_put k v es)"

fun node_del :: "bytes \<Rightarrow> bucket \<Rightarrow> bucket" where
  "node_del k [] = []"
| "node_del k ((k', v') # es) =
     (if k = k' then es else (k', v') # node_del k es)"

definition bucket_Get :: "bucket \<Rightarrow> bytes \<Rightarrow> bytes option" where
  "bucket_Get b key = map_of b key"

definition bucket_Put :: "bucket \<Rightarrow> bytes \<Rightarrow> bytes \<Rightarrow> bolt_error + bucket" where
  "bucket_Put b key val =
     (if key = [] then Inl ErrKeyRequired
      else if MaxKeySize < length key then Inl ErrKeyTooLarge
      else if MaxValueSize < length val then Inl ErrValueTooLarge
      else Inr (node_put key val b))"

definition bucket_Delete :: "bucket \<Rightarrow> bytes \<Rightarrow> bolt_error + bucket" where
  "bucket_Delete b key = Inr (node_del key b)"

text \<open>A bucket of the engine is well formed when its keys ascend strictly.\<close>

definition bucket_wf :: "bucket \<Rightarrow> bool" where
  "bucket_wf b = sorted_wrt (<) (map fst b)"

definition keyspace_wf :: "bolt_tx \<Rightarrow> bytes \<Rightarrow> bool" where
  "keyspace_wf tx name = (case tx name of None \<Rightarrow> True | Some b \<Rightarrow> bucket_wf b)"

section \<open>Errors of the backend\<close>

text \<open>
  The backend's own errors are made with \<^verbatim>\<open>fmt.Errorf\<close>; an error of the engine
  is passed on as it is. An \<^verbatim>\<open>fmt.Errorf\<close> error is kept as its format and its
  arguments, and \<open>Sprintf\<close> renders the message: every \<^verbatim>\<open>%q\<close> is replaced by
  the next argument as quoted by \<open>q\<close> (Go's \<^verbatim>\<open>strconv.Quote\<close>, a parameter of the
  rendering).
\<close>

datatype error =
    Errorf string "bytes list"
  | BoltError bolt_error

fun Sprintf :: "(bytes \<Rightarrow> string) \<Rightarrow> string \<Rightarrow> bytes list \<Rightarrow> string" where
  "Sprintf q [] args = []"
| "Sprintf q [c] args = [c]"
| "Sprintf q (c # d # cs) args =
     (if c = CHR ''%'' \<and> d = CHR ''q'' then
        (case args of
           [] \<Rightarrow> ''%!q(MISSING)'' @ Sprintf q cs []
         | a # as \<Rightarrow> q a @ Sprintf q cs as)
      else c # Sprintf q (d # cs) args)"

fun error_Error :: "(bytes \<Rightarrow> string) \<Rightarrow> error \<Rightarrow> string" where
  "error_Error q (Errorf f args) = Sprintf q f args"
| "error_Error q (BoltError ErrBucketNameRequired) = ''bucket name required''"
| "error_Error q (BoltError ErrKeyRequired) = ''key required''"
| "error_Error q (BoltError ErrKeyTooLarge) = ''key too large''"
| "error_Error q (BoltError ErrValueTooLarge) = ''value too large''"

section \<open>The backend\<close>

record BoltAuth =
  TokenBucket :: bytes
  UserBucket :: bytes

definition NewBoltDBAuthBackend :: "bytes \<Rightarrow> bytes \<Rightarrow> BoltAuth" where
  "NewBoltDBAuthBackend tokenBucket userBucket =
     \<lparr> TokenBucket = tokenBucket, UserBucket = userBucket \<rparr>"

definition UserBucketName :: bytes where
  "UserBucketName = ''authbucket''"

definition TokenBucketName :: bytes where
  "TokenBucketName = ''tokenbucket''"

text \<open>
  \<^verbatim>\<open>DB.Update\<close>: the function runs on the transaction's view of the store; its
  changes are kept only when it returns nil.
\<close>

definition db_Update :: "(bolt_tx \<Rightarrow> error option \<times> bolt_tx) \<Rightarrow> bolt_tx \<Rightarrow> error option \<times> bolt_tx" where
  "db_Update fn ds =
     (case fn ds of
        (Some e, tx') \<Rightarrow> (Some e, ds)
      | (None, tx') \<Rightarrow> (None, tx'))"

definition SetValue :: "BoltAuth \<Rightarrow> bytes \<Rightarrow> bytes \<Rightarrow> bolt_tx \<Rightarrow> error option \<times> bolt_tx" where
  "SetValue b key val ds =
     db_Update (\<lambda>tx.
       case tx_CreateBucketIfNotExists tx (TokenBucket b) of
         Inl e \<Rightarrow> (Some (BoltError e), tx)
       | Inr (bucket, tx1) \<Rightarrow>
           (case bucket_Put bucket key val of
              Inl e \<Rightarrow> (Some (BoltError e), tx1)
            | Inr bucket' \<Rightarrow> (None, tx1(TokenBucket b \<mapsto> bucket')))) ds"

definition GetValue :: "BoltAuth \<Rightarrow> bytes \<Rightarrow> bolt_tx \<Rightarrow> bytes option \<times> error option" where
  "GetValue b key ds =
     (case tx_Bucket ds (TokenBucket b) of
        None \<Rightarrow> (None, Some (Errorf ''Bucket %q not found!'' [TokenBucket b]))
      | Some bucket \<Rightarrow>
          (case bucket_Get bucket key of
             None \<Rightarrow> (None, Some (Errorf ''key %q not found \<newline>'' [key]))
           | Some val \<Rightarrow> (Some val, None)))"

definition delete :: "bytes \<Rightarrow> bytes \<Rightarrow> bolt_tx \<Rightarrow> error option \<times> bolt_tx" where
  "delete key bucket ds =
     db_Update (\<lambda>tx.
       case tx_CreateBucketIfNotExists tx bucket of
         Inl e \<Rightarrow> (Some (BoltError e), tx)
       | Inr (bkt, tx1) \<Rightarrow>
           (case bucket_Delete bkt key of
              Inl e \<Rightarrow> (Some (BoltError e), tx1)
            | Inr bkt' \<Rightarrow> (None, tx1(bucket \<mapsto> bkt')))) ds"

definition DeleteUser :: "BoltAuth \<Rightarrow> bytes \<Rightarrow> bolt_tx \<Rightarrow> error option \<times> bolt_tx" where
  "DeleteUser b username ds = delete username (UserBucket b) ds"


section \<open>Facts about the engine\<close>

lemma map_of_node_put:
  "map_of (node_put k v b) key = (if key = k then Some v else map_of b key)"
  by (induction k v b rule: node_put.induct) auto

lemma set_node_put_keys: "fst ` set (node_put k v b) = insert k (fst ` set b)"
  by (induction k v b rule: node_put.induct) (simp_all, blast+)

lemma node_del_absent: "map_of b k = None \<Longrightarrow> node_del k b = b"
  by (induction k b rule: node_del.induct) (auto split: if_splits)

lemma set_node_del: "set (node_del k b) \<subseteq> set b"
  by (induction k b rule: node_del.induct) auto
lemma node_put_wf: "bucket_wf b \<Longrightarrow> bucket_wf (node_put k v b)"
proof (induction b)
  case Nil
  then show ?case by (simp add: bucket_wf_def)
next
  case (Cons e es)
  obtain k' v' where e: "e = (k', v')" by (cases e)
  have wf: "bucket_wf es" and above: "\<forall>x \<in> fst ` set es. k' < x"
    using Cons.prems e by (auto simp: bucket_wf_def)
  have tail: "sorted_wrt (<) (map fst (node_put k v es))"
    using Cons.IH [OF wf] by (simp add: bucket_wf_def)
  have ins: "\<forall>x \<in> fst ` set (node_put k v es). k' < x" if "\<not> k < k'" "k \<noteq> k'"
    using that above unfolding set_node_put_keys by auto
  show ?case
  proof (cases "k = k'")
    case True
    then show ?thesis using Cons.prems e by (simp add: bucket_wf_def)
  next
    case False
    show ?thesis
    proof (cases "k < k'")
      case True
      then have "\<forall>x \<in> fst ` set es. k < x" using above by auto
      then show ?thesis using True False Cons.prems e by (simp add: bucket_wf_def)
    next
      case nless: False
      have "\<forall>x \<in> set (node_put k v es). k' < fst x"
        using ins [OF nless False] by auto
      then show ?thesis using nless False tail e by (simp add: bucket_wf_def)
    qed
  qed
qed

lemma node_del_wf: "bucket_wf b \<Longrightarrow> bucket_wf (node_del k b)"
proof (induction b)
  case Nil
  then show ?case by (simp add: bucket_wf_def)
next
  case (Cons e es)
  obtain k' v' where e: "e = (k', v')" by (cases e)
  have wf: "bucket_wf es" and above: "\<forall>x \<in> set es. k' < fst x"
    using Cons.prems e by (auto simp: bucket_wf_def)
  have "\<forall>x \<in> set (node_del k es). k' < fst x"
    using above set_node_del [of k es] by blast
  then show ?case
    using Cons.IH [OF wf] wf e by (simp add: bucket_wf_def)
qed

lemma wf_head_not_in_tail:
  "bucket_wf ((k, v) # es) \<Longrightarrow> map_of es k = None"
  unfolding bucket_wf_def by (force simp: map_of_eq_None_iff)

lemma map_of_node_del:
  "bucket_wf b \<Longrightarrow> map_of (node_del k b) key = (if key = k then None else map_of b key)"
proof (induction b)
  case Nil
  then show ?case by simp
next
  case (Cons e es)
  obtain k' v' where e: "e = (k', v')" by (cases e)
  have wf: "bucket_wf es" using Cons.prems by (simp add: bucket_wf_def)
  show ?case
    using Cons.IH [OF wf] wf_head_not_in_tail [of k' v' es] Cons.prems e by auto
qed

section \<open>Token keyspace\<close>

text \<open>
  Claim C4. For every key, \<open>GetValue\<close> on a store in which the token keyspace has never
  been created fails with the missing-keyspace error (\<^verbatim>\<open>Bucket %q not found!\<close>).
  After a \<open>SetValue\<close> call that returned nil the token keyspace exists, and \<open>GetValue\<close>
  on a key absent from it fails with the not-found error (\<^verbatim>\<open>key %q not found\<close>).
  The two errors are different values, and their messages differ however \<^verbatim>\<open>%q\<close>
  renders its argument.
\<close>

theorem GetValue_missing_keyspace_vs_missing_key:
  "(tx_Bucket ds (TokenBucket b) = None \<longrightarrow>
      GetValue b key ds = (None, Some (Errorf ''Bucket %q not found!'' [TokenBucket b])))
   \<and> (SetValue b k v ds = (None, ds') \<longrightarrow>
        (\<exists>bucket. tx_Bucket ds' (TokenBucket b) = Some bucket \<and>
           (bucket_Get bucket key = None \<longrightarrow>
              GetValue b key ds' = (None, Some (Errorf ''key %q not found \<newline>'' [key])))))
   \<and> Errorf ''Bucket %q not found!'' [TokenBucket b] \<noteq> Errorf ''key %q not found \<newline>'' [key]
   \<and> (\<forall>q. error_Error q (Errorf ''Bucket %q not found!'' [TokenBucket b])
          \<noteq> error_Error q (Errorf ''key %q not found \<newline>'' [key]))"
  by (auto simp: GetValue_def SetValue_def db_Update_def tx_Bucket_def
        tx_CreateBucketIfNotExists_def bucket_Put_def
      split: option.splits sum.splits prod.splits if_splits)

theorem GetValue_missing_keyspace_vs_missing_key_witness:
  "tx_Bucket Map.empty (TokenBucket (NewBoltDBAuthBackend TokenBucketName UserBucketName)) = None
   \<and> GetValue (NewBoltDBAuthBackend TokenBucketName UserBucketName) ''t2'' Map.empty
       = (None, Some (Errorf ''Bucket %q not found!'' [''tokenbucket'']))
   \<and> SetValue (NewBoltDBAuthBackend TokenBucketName UserBucketName) ''t1'' ''v1'' Map.empty
       = (None, [''tokenbucket'' \<mapsto> [(''t1'', ''v1'')]])
   \<and> bucket_Get [(''t1'', ''v1'')] ''t2'' = None
   \<and> GetValue (NewBoltDBAuthBackend TokenBucketName UserBucketName) ''t2''
         [''tokenbucket'' \<mapsto> [(''t1'', ''v1'')]]
       = (None, Some (Errorf ''key %q not found \<newline>'' [''t2'']))"
proof -
  let ?b = "NewBoltDBAuthBackend TokenBucketName UserBucketName"
  let ?ds' = "[''tokenbucket'' \<mapsto> [(''t1'', ''v1'')]] :: bolt_tx"
  have set: "SetValue ?b ''t1'' ''v1'' Map.empty = (None, ?ds')"
    by (simp add: SetValue_def db_Update_def tx_CreateBucketIfNotExists_def bucket_Put_def
        NewBoltDBAuthBackend_def TokenBucketName_def MaxKeySize_def MaxValueSize_def)
  have none: "tx_Bucket Map.empty (TokenBucket ?b) = None"
    by (simp add: tx_Bucket_def)
  have tb: "TokenBucket ?b = ''tokenbucket''"
    by (simp add: NewBoltDBAuthBackend_def TokenBucketName_def)
  have bk: "tx_Bucket ?ds' (TokenBucket ?b) = Some [(''t1'', ''v1'')]"
    by (simp add: tx_Bucket_def tb)
  have absent: "bucket_Get [(''t1'', ''v1'')] ''t2'' = None"
    by (simp add: bucket_Get_def)
  from GetValue_missing_keyspace_vs_missing_key [of Map.empty ?b "''t2''" "''t1''" "''v1''" ?ds']
  show ?thesis using set none bk absent tb by auto
qed

section \<open>Deleting users\<close>

lemma delete_result:
  "bucket \<noteq> [] \<Longrightarrow>
   delete key bucket ds =
     (None, ds(bucket \<mapsto> node_del key (case ds bucket of None \<Rightarrow> [] | Some bkt \<Rightarrow> bkt)))"
  by (simp add: delete_def db_Update_def tx_CreateBucketIfNotExists_def bucket_Delete_def
      split: option.splits)

text \<open>
  Claim C8. For every username, \<open>DeleteUser\<close> returns nil, also when the username is
  absent from the user keyspace (the store is then left as it was); afterwards the
  username is absent, and a second \<open>DeleteUser\<close> of the same username returns nil again
  and changes nothing. The backend's user keyspace has a name (the engine refuses to
  create a bucket with a blank name).
\<close>

theorem DeleteUser_idempotent:
  "UserBucket b \<noteq> [] \<Longrightarrow> keyspace_wf ds (UserBucket b) \<Longrightarrow>
     fst (DeleteUser b username ds) = None
   \<and> (\<forall>bucket. tx_Bucket ds (UserBucket b) = Some bucket \<and> bucket_Get bucket username = None
         \<longrightarrow> snd (DeleteUser b username ds) = ds)
   \<and> (\<exists>bucket. tx_Bucket (snd (DeleteUser b username ds)) (UserBucket b) = Some bucket
         \<and> bucket_Get bucket username = None)
   \<and> DeleteUser b username (snd (DeleteUser b username ds))
        = (None, snd (DeleteUser b username ds))"
proof -
  assume name: "UserBucket b \<noteq> []" and wf: "keyspace_wf ds (UserBucket b)"
  let ?old = "case ds (UserBucket b) of None \<Rightarrow> [] | Some bkt \<Rightarrow> bkt"
  let ?ds' = "ds(UserBucket b \<mapsto> node_del username ?old)"
  have wf_old: "bucket_wf ?old"
    using wf by (simp add: keyspace_wf_def bucket_wf_def split: option.splits)
  have first: "DeleteUser b username ds = (None, ?ds')"
    by (simp add: DeleteUser_def delete_result [OF name])
  have gone: "map_of (node_del username ?old) username = None"
    using map_of_node_del [OF wf_old, of username username] by simp
  have again: "node_del username (node_del username ?old) = node_del username ?old"
    by (rule node_del_absent [OF gone])
  have second: "DeleteUser b username ?ds' = (None, ?ds')"
    by (simp add: DeleteUser_def delete_result [OF name] again)
  have absent: "snd (DeleteUser b username ds) = ds"
    if "tx_Bucket ds (UserBucket b) = Some bucket" "bucket_Get bucket username = None" for bucket
    using that first node_del_absent [of bucket username]
    by (simp add: tx_Bucket_def bucket_Get_def map_upd_triv)
  show ?thesis
    using first second gone absent by (auto simp: tx_Bucket_def bucket_Get_def)
qed

theorem DeleteUser_idempotent_witness:
  "UserBucket (NewBoltDBAuthBackend TokenBucketName UserBucketName) \<noteq> []
   \<and> keyspace_wf [''authbucket'' \<mapsto> [(''alice'', ''r1''), (''bob'', ''r2'')]]
        (UserBucket (NewBoltDBAuthBackend TokenBucketName UserBucketName))
   \<and> DeleteUser (NewBoltDBAuthBackend TokenBucketName UserBucketName) ''bob''
        [''authbucket'' \<mapsto> [(''alice'', ''r1''), (''bob'', ''r2'')]]
       = (None, [''authbucket'' \<mapsto> [(''alice'', ''r1'')]])
   \<and> DeleteUser (NewBoltDBAuthBackend TokenBucketName UserBucketName) ''bob''
        [''authbucket'' \<mapsto> [(''alice'', ''r1'')]]
       = (None, [''authbucket'' \<mapsto> [(''alice'', ''r1'')]])"
proof -
  let ?b = "NewBoltDBAuthBackend TokenBucketName UserBucketName"
  let ?ds = "[''authbucket'' \<mapsto> [(''alice'', ''r1''), (''bob'', ''r2'')]] :: bolt_tx"
  have ub: "UserBucket ?b = ''authbucket''"
    by (simp add: NewBoltDBAuthBackend_def UserBucketName_def)
  have name: "UserBucket ?b \<noteq> []"
    by (simp add: ub)
  have wf: "keyspace_wf ?ds (UserBucket ?b)"
    by (simp add: ub keyspace_wf_def bucket_wf_def)
  have first: "DeleteUser ?b ''bob'' ?ds = (None, [''authbucket'' \<mapsto> [(''alice'', ''r1'')]])"
    by (simp add: ub DeleteUser_def delete_def db_Update_def tx_CreateBucketIfNotExists_def
        bucket_Delete_def)
  from DeleteUser_idempotent [OF name wf, of "''bob''"]
  show ?thesis using name wf first by simp
qed

end
